theory Spec2Isabelle
  imports Main
begin

section \<open>The browser store (\<open>$lib/stores/browserStore\<close>)\<close>

text \<open>
  The module keeps Svelte stores (\<open>connected\<close>, \<open>messages\<close>, \<open>browserScreenshot\<close>,
  \<open>isLoading\<close>, \<open>browserStatus\<close>, \<open>urlInput\<close>, \<open>promptInput\<close>, \<open>fpsValue\<close>) and
  two module variables (\<open>socket\<close>, \<open>pingInterval\<close>). The model is one record of all
  of them, passed through every function. What the module does to the outside world is
  recorded in the same record: the WebSocket objects it created with their
  \<open>readyState\<close>, the armed interval timers, the pings sent, the toasts shown and the
  REST calls issued.

  JavaScript strings are modelled as \<open>string\<close>; the falsy string is the empty one.
\<close>

datatype phase = Idle | Starting | Running | Stopping

datatype origin = System | Agent | User

datatype toast = ToastError string | ToastSuccess string

datatype ready_state = CONNECTING | OPEN | CLOSING | CLOSED

text \<open>A call of \<open>fetch\<close>: always \<open>POST\<close>, to one of the five paths, with its body.\<close>

datatype request =
    BrowserStart
  | BrowserStop
  | BrowserNavigate string
  | AgentRun string
  | StreamingSetFps int

text \<open>
  What \<open>await fetch(...)\<close> followed by \<open>await response.json()\<close> gives the caller:
  either one of the two throws (\<open>Rejected e\<close>, with \<open>e\<close> the error as the template
  literal prints it), or a body whose \<open>message\<close> field is read (\<open>Json m\<close>). The code
  never looks at the HTTP status, so nothing else of the response matters.
\<close>

datatype reply = Rejected string | Json string





datatype update_status = UStep | UFailed | UCompleted

text \<open>
  \<open>interface Update { status; interaction_id; data: any }\<close>. The only read of \<open>data\<close>
  is \<open>data.message\<close>: \<open>None\<close> stands for a \<open>data\<close> that is null or undefined (the
  read throws), \<open>Some m\<close> for an object whose \<open>message\<close> is \<open>m\<close>.
\<close>

record update =
  upd_status :: update_status
  interaction_id :: string
  upd_data :: "string option"

record store =
  connected :: bool
  messages :: "string list"
  browserScreenshot :: string
  isLoading :: bool
  browserStatus :: phase
  urlInput :: string
  promptInput :: string
  fpsValue :: int
  turn :: phase
  updates :: "update list"
  socket :: "nat option"
  pingInterval :: "nat option"
  sockets :: "ready_state list"
  timers :: "nat set"
  timer_count :: nat
  sent :: "nat list"
  toasts :: "toast list"
  requests :: "request list"
  queue_stuck :: bool

text \<open>
  \<open>socket\<close> holds the index in \<open>sockets\<close> of the WebSocket object the module variable
  refers to. \<open>timer_count\<close> is the last identifier \<open>window.setInterval\<close> returned; its
  identifiers are positive. \<open>turn\<close> is the store of \<open>lib/stores/turn\<close>; \<open>updates\<close> is the
  store the agent message component imports from the browser store, a writable list of
  \<open>Update\<close>.

  \<open>queue_stuck\<close> belongs to \<open>svelte/store\<close>. Its \<open>set\<close> puts the subscribers of the
  store on a queue shared by all stores, runs the queue if it was empty before, and
  empties it afterwards. A subscriber that throws while the queue runs leaves the queue
  filled for good: from then on every \<open>set\<close> of every store finds it non-empty, stores
  the value and calls no subscriber.
\<close>

definition init_store :: store where
  "init_store =
     \<lparr>connected = False, messages = [], browserScreenshot = [], isLoading = False,
      browserStatus = Idle, urlInput = ''https://www.example.com'',
      promptInput = ''Tell me what's on this page'', fpsValue = 5,
      turn = Idle, updates = [], socket = None, pingInterval = None, sockets = [],
      timers = {}, timer_count = 0, sent = [], toasts = [], requests = [],
      queue_stuck = False\<rparr>"

definition addMessage :: "origin \<Rightarrow> string \<Rightarrow> bool \<Rightarrow> store \<Rightarrow> store" where
  "addMessage from message error s =
     (let s1 = (if from = System
                then s\<lparr>toasts := toasts s @ [if error then ToastError message
                                              else ToastSuccess message]\<rparr>
                else s)
      in s1\<lparr>messages := messages s1 @ [message]\<rparr>)"

subsection \<open>The WebSocket\<close>

definition readyState :: "store \<Rightarrow> nat \<Rightarrow> ready_state" where
  "readyState s i = (if i < length (sockets s) then sockets s ! i else CLOSED)"

text \<open>\<open>socket?.readyState === WebSocket.OPEN\<close>\<close>

definition socket_open :: "store \<Rightarrow> bool" where
  "socket_open s = (case socket s of None \<Rightarrow> False | Some i \<Rightarrow> readyState s i = OPEN)"

text \<open>\<open>if (pingInterval)\<close>: null and 0 are falsy.\<close>

definition truthy :: "nat option \<Rightarrow> bool" where
  "truthy v = (case v of None \<Rightarrow> False | Some n \<Rightarrow> n \<noteq> 0)"

definition clearInterval :: "nat option \<Rightarrow> store \<Rightarrow> store" where
  "clearInterval v s = (case v of None \<Rightarrow> s | Some t \<Rightarrow> s\<lparr>timers := timers s - {t}\<rparr>)"

definition connectWebSocket :: "store \<Rightarrow> store" where
  "connectWebSocket s =
     (if socket_open s then s
      else s\<lparr>sockets := sockets s @ [CONNECTING], socket := Some (length (sockets s))\<rparr>)"

text \<open>The handler \<open>socket.onopen\<close>.\<close>

definition onopen :: "store \<Rightarrow> store" where
  "onopen s =
     (let s1 = s\<lparr>connected := True\<rparr>;
          s2 = addMessage System ''Connected to server'' False s1;
          t = Suc (timer_count s2)
      in s2\<lparr>timer_count := t, timers := insert t (timers s2), pingInterval := Some t\<rparr>)"

text \<open>The callback given to \<open>setInterval\<close>, run every 30 seconds while the timer is armed.\<close>

definition ping_tick :: "store \<Rightarrow> store" where
  "ping_tick s =
     (if socket_open s then s\<lparr>sent := sent s @ [the (socket s)]\<rparr>
      else if truthy (pingInterval s) then clearInterval (pingInterval s) s
      else s)"

datatype frame =
    Screenshot string string
  | Message string
  | Pong
  | Unknown
  | Malformed

text \<open>The handler \<open>socket.onmessage\<close>; a frame that does not parse is caught and dropped.\<close>

definition onmessage :: "frame \<Rightarrow> store \<Rightarrow> store" where
  "onmessage f s =
     (case f of
        Screenshot d u \<Rightarrow>
          s\<lparr>browserScreenshot := ''data:image/png;base64,'' @ d, urlInput := u,
            isLoading := False\<rparr>
      | Message d \<Rightarrow> addMessage Agent d False s
      | Pong \<Rightarrow> s
      | Unknown \<Rightarrow> s
      | Malformed \<Rightarrow> s)"

text \<open>The handler \<open>socket.onclose\<close>.\<close>

definition onclose :: "store \<Rightarrow> store" where
  "onclose s =
     (let s1 = s\<lparr>connected := False\<rparr>
      in if truthy (pingInterval s1)
         then (clearInterval (pingInterval s1) s1)\<lparr>pingInterval := None\<rparr>
         else s1)"

definition onerror :: "store \<Rightarrow> store" where
  "onerror s = addMessage System ''Connection error occurred'' True s"

text \<open>
  The events of the platform on the WebSocket object \<open>i\<close>: the connection opens or
  closes, the object's \<open>readyState\<close> changes and the handler runs.
\<close>

definition ws_opened :: "nat \<Rightarrow> store \<Rightarrow> store" where
  "ws_opened i s = onopen (s\<lparr>sockets := (sockets s)[i := OPEN]\<rparr>)"

definition ws_closed :: "nat \<Rightarrow> store \<Rightarrow> store" where
  "ws_closed i s = onclose (s\<lparr>sockets := (sockets s)[i := CLOSED]\<rparr>)"

text \<open>\<open>socket.close()\<close>: starts the closing handshake unless the socket is closing or closed.\<close>

definition ws_close :: "nat \<Rightarrow> store \<Rightarrow> store" where
  "ws_close i s =
     (if readyState s i = CLOSING \<or> readyState s i = CLOSED then s
      else s\<lparr>sockets := (sockets s)[i := CLOSING]\<rparr>)"

definition disconnectWebSocket :: "store \<Rightarrow> store" where
  "disconnectWebSocket s =
     (let s1 = (case socket s of
                  None \<Rightarrow> s
                | Some i \<Rightarrow> (ws_close i s)\<lparr>socket := None\<rparr>);
          s2 = (if truthy (pingInterval s1)
                then (clearInterval (pingInterval s1) s1)\<lparr>pingInterval := None\<rparr>
                else s1)
      in s2\<lparr>connected := False\<rparr>)"

subsection \<open>The REST calls\<close>

text \<open>
  Each \<open>async\<close> function runs up to its \<open>await fetch\<close> (the part \<open>_send\<close>, which
  records the request), and resumes with the reply (the part \<open>_recv\<close>); other handlers
  may run in between. The function applied to a reply is the two parts in sequence.
\<close>

definition startBrowser_send :: "store \<Rightarrow> store" where
  "startBrowser_send s =
     s\<lparr>browserStatus := Starting, isLoading := True,
       requests := requests s @ [BrowserStart]\<rparr>"

definition startBrowser_recv :: "reply \<Rightarrow> store \<Rightarrow> store" where
  "startBrowser_recv r s =
     (case r of
        Json m \<Rightarrow> (addMessage System m False s)\<lparr>browserStatus := Running\<rparr>
      | Rejected e \<Rightarrow>
          (addMessage System (''Failed to start browser - '' @ e) True s)
            \<lparr>browserStatus := Idle, isLoading := False\<rparr>)"

definition startBrowser :: "reply \<Rightarrow> store \<Rightarrow> store" where
  "startBrowser r s = startBrowser_recv r (startBrowser_send s)"

definition stopBrowser_send :: "store \<Rightarrow> store" where
  "stopBrowser_send s =
     s\<lparr>browserStatus := Stopping, requests := requests s @ [BrowserStop]\<rparr>"

definition stopBrowser_recv :: "reply \<Rightarrow> store \<Rightarrow> store" where
  "stopBrowser_recv r s =
     (case r of
        Json m \<Rightarrow>
          (addMessage System m False s)\<lparr>browserScreenshot := [], browserStatus := Idle\<rparr>
      | Rejected e \<Rightarrow>
          (addMessage System (''Failed to stop browser - '' @ e) True s)
            \<lparr>browserStatus := Running\<rparr>)"

definition stopBrowser :: "reply \<Rightarrow> store \<Rightarrow> store" where
  "stopBrowser r s = stopBrowser_recv r (stopBrowser_send s)"

text \<open>
  \<open>navigateToUrl\<close> returns before any call when the URL is empty; \<open>navigateToUrl_send\<close>
  says whether the function is now waiting for a reply.
\<close>

definition navigateToUrl_send :: "string \<Rightarrow> store \<Rightarrow> bool \<times> store" where
  "navigateToUrl_send url s =
     (if url = [] then (False, addMessage System ''Please enter a URL'' True s)
      else (True, s\<lparr>isLoading := True, requests := requests s @ [BrowserNavigate url]\<rparr>))"

definition navigateToUrl_recv :: "reply \<Rightarrow> store \<Rightarrow> store" where
  "navigateToUrl_recv r s =
     (case r of
        Json m \<Rightarrow> addMessage System m False s
      | Rejected e \<Rightarrow>
          (addMessage System (''Failed to navigate - '' @ e) True s)\<lparr>isLoading := False\<rparr>)"

definition navigateToUrl :: "string \<Rightarrow> reply \<Rightarrow> store \<Rightarrow> store" where
  "navigateToUrl url r s =
     (case navigateToUrl_send url s of
        (False, s1) \<Rightarrow> s1
      | (True, s1) \<Rightarrow> navigateToUrl_recv r s1)"

text \<open>
  \<open>runAgent\<close> has no \<open>return\<close> statement: its promise resolves to \<open>undefined\<close>
  (\<open>None\<close>) on every path.
\<close>

definition runAgent :: "string \<Rightarrow> reply \<Rightarrow> store \<Rightarrow> string option \<times> store" where
  "runAgent prompt r s =
     (if prompt = [] then (None, addMessage System ''Please enter a prompt'' True s)
      else
        let s1 = addMessage System (''Running agent with prompt: '' @ prompt) False s;
            s2 = s1\<lparr>requests := requests s1 @ [AgentRun prompt]\<rparr>
        in (None,
            case r of
              Json m \<Rightarrow> addMessage System m False s2
            | Rejected e \<Rightarrow> addMessage System (''Failed to run agent - '' @ e) True s2))"

text \<open>The decimal numeral of an integer, as a template literal prints a number.\<close>

fun digits :: "nat \<Rightarrow> string" where
  "digits n =
     (if n < 10 then [''0123456789'' ! n]
      else digits (n div 10) @ [''0123456789'' ! (n mod 10)])"

declare digits.simps [simp del]

definition show_int :: "int \<Rightarrow> string" where
  "show_int i = (if i < 0 then CHR ''-'' # digits (nat (- i)) else digits (nat i))"

definition setFps :: "int \<Rightarrow> reply \<Rightarrow> store \<Rightarrow> store" where
  "setFps fps r s =
     (let s1 = s\<lparr>requests := requests s @ [StreamingSetFps fps]\<rparr>
      in case r of
           Json m \<Rightarrow> addMessage System (''FPS set to '' @ show_int fps) False s1
         | Rejected e \<Rightarrow> addMessage System (''Failed to set FPS - '' @ e) True s1)"

section \<open>The browser panel (\<open>browser.svelte\<close>)\<close>

text \<open>
  The controls of the panel are disabled unless the browser is running. The frame rate
  is chosen with \<open><input type="range" min="1" max="30" step="1" bind:value={$fpsValue}>\<close>:
  the platform keeps the value of a range input between its \<open>min\<close> and \<open>max\<close>,
  so whatever position is asked for, the value written to \<open>fpsValue\<close> is
  \<open>range_value 1 30\<close> of it. The button Apply calls \<open>setFps($fpsValue)\<close>.
\<close>

definition range_value :: "int \<Rightarrow> int \<Rightarrow> int \<Rightarrow> int" where
  "range_value lo hi v = (if v < lo then lo else if hi < v then hi else v)"

definition fps_control_input :: "int \<Rightarrow> store \<Rightarrow> store" where
  "fps_control_input v s =
     (if browserStatus s \<noteq> Running then s else s\<lparr>fpsValue := range_value 1 30 v\<rparr>)"

definition fps_apply_click :: "reply \<Rightarrow> store \<Rightarrow> store" where
  "fps_apply_click r s =
     (if browserStatus s \<noteq> Running then s else setFps (fpsValue s) r s)"

datatype panel_event =
    FpsInput int
  | FpsApply reply
  | StartClick reply
  | StopClick reply
  | UrlTyped string
  | NavigateClick reply
  | PromptTyped string
  | RunAgentClick reply

definition panel_step :: "panel_event \<Rightarrow> store \<Rightarrow> store" where
  "panel_step ev s =
     (case ev of
        FpsInput v \<Rightarrow> fps_control_input v s
      | FpsApply r \<Rightarrow> fps_apply_click r s
      | StartClick r \<Rightarrow>
          (if browserStatus s = Running \<or> browserStatus s = Starting then s
           else startBrowser r s)
      | StopClick r \<Rightarrow>
          (if browserStatus s = Idle \<or> browserStatus s = Stopping then s
           else stopBrowser r s)
      | UrlTyped u \<Rightarrow> (if browserStatus s \<noteq> Running then s else s\<lparr>urlInput := u\<rparr>)
      | NavigateClick r \<Rightarrow>
          (if browserStatus s \<noteq> Running then s else navigateToUrl (urlInput s) r s)
      | PromptTyped p \<Rightarrow>
          (if browserStatus s \<noteq> Running then s else s\<lparr>promptInput := p\<rparr>)
      | RunAgentClick r \<Rightarrow>
          (if browserStatus s \<noteq> Running then s else snd (runAgent (promptInput s) r s)))"

fun panel_run :: "panel_event list \<Rightarrow> store \<Rightarrow> store" where
  "panel_run [] s = s"
| "panel_run (ev # evs) s = panel_run evs (panel_step ev s)"

text \<open>The life cycle of the panel: \<open>onMount\<close> and \<open>onDestroy\<close>.\<close>

definition panel_onMount :: "reply \<Rightarrow> store \<Rightarrow> store" where
  "panel_onMount r s = startBrowser r (connectWebSocket s)"

definition panel_onDestroy :: "reply \<Rightarrow> store \<Rightarrow> store" where
  "panel_onDestroy r s = stopBrowser r (disconnectWebSocket s)"

text \<open>The request carries a frame rate of the control's range, or is no set-fps request.\<close>

definition fps_request_ok :: "request \<Rightarrow> bool" where
  "fps_request_ok q = (case q of StreamingSetFps n \<Rightarrow> 1 \<le> n \<and> n \<le> 30 | _ \<Rightarrow> True)"

text \<open>The frame rate in the store and in every request issued so far is within the range.\<close>

definition fps_inv :: "store \<Rightarrow> bool" where
  "fps_inv s =
     (1 \<le> fpsValue s \<and> fpsValue s \<le> 30 \<and> list_all fps_request_ok (requests s))"

section \<open>The commands (the table \<open>Commands\<close>)\<close>

datatype outcome_status = Completed | Started | Failed | StatusTrue

record outcome =
  status :: outcome_status
  message :: string

text \<open>
  \<open>String.prototype.trim\<close> removes white space and line terminators at both ends. A
  character of the model is one code unit below 256; there the white space is tab, line
  feed, vertical tab, form feed, carriage return, space and the no-break space.
\<close>

definition code :: "char \<Rightarrow> nat" where
  "code c = of_char c"

definition is_space :: "char \<Rightarrow> bool" where
  "is_space c = (code c \<in> {9, 10, 11, 12, 13, 32, 160})"

definition trim :: "string \<Rightarrow> string" where
  "trim s = rev (dropWhile is_space (rev (dropWhile is_space s)))"

definition is_letter :: "char \<Rightarrow> bool" where
  "is_letter c =
     ((code CHR ''a'' \<le> code c \<and> code c \<le> code CHR ''z'')
      \<or> (code CHR ''A'' \<le> code c \<and> code c \<le> code CHR ''Z''))"

definition is_digit :: "char \<Rightarrow> bool" where
  "is_digit c = (code CHR ''0'' \<le> code c \<and> code c \<le> code CHR ''9'')"

definition scheme_char :: "char \<Rightarrow> bool" where
  "scheme_char c =
     (is_letter c \<or> is_digit c \<or> c = CHR ''+'' \<or> c = CHR ''.'' \<or> c = CHR ''-'')"

text \<open>
  \<open>/^[a-z][a-z0-9+.-]*:\/\//i.test(s)\<close>: a letter, the longest run of scheme
  characters (none of which is a colon or a slash, so no shorter run can match either),
  then \<open>://\<close>.
\<close>

definition hasProtocol :: "string \<Rightarrow> bool" where
  "hasProtocol s =
     (case s of
        [] \<Rightarrow> False
      | c # cs \<Rightarrow> is_letter c \<and> take 3 (dropWhile scheme_char cs) = ''://'')"

definition processUrl :: "string \<Rightarrow> string" where
  "processUrl url =
     (let processedUrl = trim url
      in if \<not> hasProtocol processedUrl then ''https://'' @ processedUrl else processedUrl)"

text \<open>\<open>urlObject.hostname.includes('.') && urlObject.hostname.length > 3\<close>\<close>

definition hasValidHostname :: "string \<Rightarrow> bool" where
  "hasValidHostname h = (CHR ''.'' \<in> set h \<and> length h > 3)"

text \<open>
  The command \<open>goto\<close>. \<open>new URL(processedUrl)\<close> is the platform's parser: the
  argument \<open>hostname_of\<close> gives the \<open>hostname\<close> of the parsed URL, or \<open>None\<close> where
  the constructor throws. The \<open>catch\<close> is empty, so a throw falls through to the
  failure at the end, as an invalid hostname does.
\<close>

definition navigateToURL ::
  "(string \<Rightarrow> string option) \<Rightarrow> string \<Rightarrow> reply \<Rightarrow> store \<Rightarrow> outcome option \<times> store" where
  "navigateToURL hostname_of url r s =
     (let processedUrl = processUrl url;
          invalid =
            (Some \<lparr>status = Failed, message = processedUrl @ '' is not a valid URL''\<rparr>,
             s\<lparr>toasts := toasts s @ [ToastError (processedUrl @ '' is not a valid URL'')]\<rparr>)
      in case hostname_of processedUrl of
           None \<Rightarrow> invalid
         | Some h \<Rightarrow>
             if hasValidHostname h
             then (Some \<lparr>status = Completed, message = ''Navigated to '' @ processedUrl\<rparr>,
                   navigateToUrl processedUrl r s)
             else invalid)"

text \<open>
  The command \<open>prompt\<close> (the \<open>runAgent\<close> of the commands, named
  \<open>runAgent_command\<close> here), over the function it awaits: \<open>run\<close> is
  \<open>browserStore.runAgent\<close>, which either throws (\<open>Inl\<close>, the error as printed) or
  resolves to a value (\<open>Inr\<close>; \<open>None\<close> is \<open>undefined\<close>). With a falsy value the
  wrapper reaches its end and resolves to \<open>undefined\<close> itself.
\<close>

definition runAgent_command_of ::
  "(string \<Rightarrow> reply \<Rightarrow> store \<Rightarrow> (string + string option) \<times> store) \<Rightarrow>
   string \<Rightarrow> reply \<Rightarrow> store \<Rightarrow> outcome option \<times> store" where
  "runAgent_command_of run prompt r s =
     (case run prompt r s of
        (Inr (Some ident), s1) \<Rightarrow>
          if ident \<noteq> []
          then (Some \<lparr>status = Started, message = ident\<rparr>,
                s1\<lparr>toasts :=
                     toasts s1 @ [ToastSuccess (''Agent started with ID: '' @ ident)]\<rparr>)
          else (None, s1)
      | (Inr None, s1) \<Rightarrow> (None, s1)
      | (Inl e, s1) \<Rightarrow>
          (Some \<lparr>status = Failed, message = ''Failed to run agent - '' @ e\<rparr>,
           s1\<lparr>toasts := toasts s1 @ [ToastError (''Failed to run agent - '' @ e)]\<rparr>))"

text \<open>The wrapper over the \<open>runAgent\<close> of the store, which never throws.\<close>

definition runAgent_command :: "string \<Rightarrow> reply \<Rightarrow> store \<Rightarrow> outcome option \<times> store" where
  "runAgent_command =
     runAgent_command_of (\<lambda>prompt r s. case runAgent prompt r s of (v, s1) \<Rightarrow> (Inr v, s1))"

datatype command_id = goto | get_actions | prompt

text \<open>\<open>Commands[...].onSend\<close>\<close>

definition onSend ::
  "(string \<Rightarrow> string option) \<Rightarrow> command_id \<Rightarrow> string \<Rightarrow> reply \<Rightarrow> store \<Rightarrow>
   outcome option \<times> store" where
  "onSend hostname_of c text r s =
     (case c of
        goto \<Rightarrow> navigateToURL hostname_of text r s
      | get_actions \<Rightarrow>
          (Some \<lparr>status = StatusTrue, message = ''Actions retrieved successfully''\<rparr>, s)
      | prompt \<Rightarrow> runAgent_command text r s)"

section \<open>The agent message (\<open>messages/agent.svelte\<close>)\<close>

text \<open>
  One component per message. Its state is \<open>response\<close>, whether its callback is
  subscribed to \<open>updates\<close> (\<open>listening\<close>), and whether the constant \<open>unsubscribe\<close>
  has been initialised (\<open>unsub_bound\<close>): a store calls a new subscriber at once, before
  \<open>subscribe\<close> returns, and a callback that reaches \<open>unsubscribe()\<close> then reads the
  constant before its initialisation, which throws.
\<close>

datatype js_error = TypeError | ReferenceError

record agent =
  response :: string
  listening :: bool
  unsub_bound :: bool

definition init_agent :: agent where
  "init_agent = \<lparr>response = [], listening = False, unsub_bound = False\<rparr>"

text \<open>The callback given to \<open>updates.subscribe\<close>, called with the value of the store.\<close>

definition on_updates ::
  "update list \<Rightarrow> agent \<times> store \<Rightarrow> js_error option \<times> agent \<times> store" where
  "on_updates us w =
     (case w of (a, s) \<Rightarrow>
        if us \<noteq> [] then
          let lastUpdate = last us in
          if upd_status lastUpdate = UCompleted then
            (case upd_data lastUpdate of
               None \<Rightarrow> (Some TypeError, a, s)
             | Some m \<Rightarrow>
                 let a1 = a\<lparr>response := m\<rparr> in
                 if \<not> unsub_bound a1 then (Some ReferenceError, a1, s)
                 else (None, a1\<lparr>listening := False\<rparr>, s\<lparr>updates := [], turn := Idle\<rparr>))
          else (None, a, s)
        else (None, a, s))"

text \<open>
  \<open>updates.set(us)\<close> by any writer. The store takes the value (a list is never equal
  to the value before). The subscriber is called through the queue, hence only while
  the queue is not stuck; where it throws, the error reaches the writer and the queue
  is stuck from then on. The two \<open>set\<close> inside the callback run while the queue is
  being run, and are emptied with it.
\<close>

definition updates_set ::
  "update list \<Rightarrow> agent \<times> store \<Rightarrow> js_error option \<times> agent \<times> store" where
  "updates_set us w =
     (case w of (a, s) \<Rightarrow>
        if listening a \<and> \<not> queue_stuck s then
          (case on_updates us (a, s\<lparr>updates := us\<rparr>) of
             (None, a1, s1) \<Rightarrow> (None, a1, s1)
           | (Some e, a1, s1) \<Rightarrow> (Some e, a1, s1\<lparr>queue_stuck := True\<rparr>))
        else (None, a, s\<lparr>updates := us\<rparr>))"

text \<open>
  \<open>const unsubscribe = updates.subscribe(...)\<close>: the store adds the subscriber and
  calls it with the current value itself, not through the queue.
\<close>

definition subscribe :: "agent \<times> store \<Rightarrow> js_error option \<times> agent \<times> store" where
  "subscribe w =
     (case w of (a, s) \<Rightarrow>
        (case on_updates (updates s) (a\<lparr>listening := True\<rparr>, s) of
           (None, a1, s1) \<Rightarrow> (None, a1\<lparr>unsub_bound := True\<rparr>, s1)
         | (Some e, a1, s1) \<Rightarrow> (Some e, a1, s1)))"

text \<open>
  \<open>onMount\<close> from the point where \<open>onSend\<close> has resolved to \<open>res\<close>. Destructuring
  \<open>undefined\<close> throws.
\<close>

definition onMount_resume ::
  "outcome option \<Rightarrow> agent \<times> store \<Rightarrow> js_error option \<times> agent \<times> store" where
  "onMount_resume res w =
     (case w of (a, s) \<Rightarrow>
        (case res of
           None \<Rightarrow> (Some TypeError, a, s)
         | Some out \<Rightarrow>
             if status out = Completed \<and> message out \<noteq> []
             then (None, a\<lparr>response := message out\<rparr>, s\<lparr>turn := Idle\<rparr>)
             else if status out = Started then subscribe (a, s)
             else (None, a, s)))"

definition onMount ::
  "(string \<Rightarrow> string option) \<Rightarrow> command_id \<Rightarrow> string \<Rightarrow> reply \<Rightarrow> agent \<times> store \<Rightarrow>
   js_error option \<times> agent \<times> store" where
  "onMount hostname_of c content r w =
     (case w of (a, s) \<Rightarrow>
        (case onSend hostname_of c content r s of
           (res, s1) \<Rightarrow> onMount_resume res (a, s1)))"

section \<open>The command input\<close>

text \<open>
  The component with the text area, the palette of actions and the button Send. Its
  state is the component's variables and the property \<open>disabled\<close> its parent sets;
  \<open>dispatched\<close> lists the \<open>action\<close> events it has emitted.
\<close>

record input_box =
  inputText :: string
  showActions :: bool
  selectedAction :: "command_id option"
  actionsDialogOpen :: bool
  showKeyboardShortcuts :: bool
  disabled :: bool
  dispatched :: "(command_id \<times> string) list"

definition init_input :: input_box where
  "init_input =
     \<lparr>inputText = [], showActions = False, selectedAction = None,
      actionsDialogOpen = False, showKeyboardShortcuts = False, disabled = False,
      dispatched = []\<rparr>"

definition startsWith :: "string \<Rightarrow> string \<Rightarrow> bool" where
  "startsWith s p = (take (length p) s = p)"

text \<open>\<open>ACTIONS[...].enableSend\<close>, which reads the component's \<open>inputText\<close>.\<close>

definition enableSend :: "command_id \<Rightarrow> input_box \<Rightarrow> bool" where
  "enableSend c b =
     (case c of
        goto \<Rightarrow> startsWith (inputText b) ''http'' \<or> startsWith (inputText b) ''www''
      | get_actions \<Rightarrow> length (inputText b) > 0
      | prompt \<Rightarrow> length (inputText b) > 0)"

text \<open>
  \<open>handleInput\<close>, for an \<open>InputEvent\<close> whose \<open>data\<close> is \<open>d\<close> (\<open>None\<close> where the
  event carries no data, as a deletion does; the empty string is falsy too).
\<close>

definition handleInput :: "string option \<Rightarrow> input_box \<Rightarrow> input_box" where
  "handleInput d b =
     (let b1 = (if d = Some ''@'' then b\<lparr>showActions := True, actionsDialogOpen := True\<rparr>
                else b)
      in if inputText b1 = ''@'' \<and> (d = None \<or> d = Some [])
         then b1\<lparr>showActions := False, actionsDialogOpen := False\<rparr>
         else b1)"

definition toggleKeyboardShortcuts :: "input_box \<Rightarrow> input_box" where
  "toggleKeyboardShortcuts b = b\<lparr>showKeyboardShortcuts := \<not> showKeyboardShortcuts b\<rparr>"

definition selectAction :: "command_id \<Rightarrow> input_box \<Rightarrow> input_box" where
  "selectAction c b =
     b\<lparr>selectedAction := Some c, inputText := [], showActions := False,
       actionsDialogOpen := False\<rparr>"

definition clearSelection :: "input_box \<Rightarrow> input_box" where
  "clearSelection b = b\<lparr>selectedAction := None\<rparr>"

definition submitAction :: "input_box \<Rightarrow> input_box" where
  "submitAction b =
     (case selectedAction b of
        None \<Rightarrow> b
      | Some c \<Rightarrow>
          if inputText b = [] then b
          else b\<lparr>dispatched := dispatched b @ [(c, inputText b)], inputText := [],
                 selectedAction := None\<rparr>)"

datatype key = Escape | Enter | OtherKey

definition handleKeydown :: "key \<Rightarrow> bool \<Rightarrow> input_box \<Rightarrow> input_box" where
  "handleKeydown k shiftKey b =
     (let b1 = (if k = Escape \<and> showActions b
                then b\<lparr>showActions := False, actionsDialogOpen := False\<rparr> else b)
      in if k = Enter \<and> \<not> shiftKey
         then (if inputText b1 \<noteq> [] then submitAction b1 else b1)
         else b1)"

text \<open>
  The two controls that reach \<open>submitAction\<close>. The button Send carries
  \<open>disabled={!inputText || !selectedAction || disabled}\<close> and the text area
  \<open>{disabled}\<close>; a disabled control receives no click and no key.
\<close>

definition send_click :: "input_box \<Rightarrow> input_box" where
  "send_click b =
     (if inputText b = [] \<or> selectedAction b = None \<or> disabled b then b
      else submitAction b)"

definition textarea_keydown :: "key \<Rightarrow> bool \<Rightarrow> input_box \<Rightarrow> input_box" where
  "textarea_keydown k shiftKey b = (if disabled b then b else handleKeydown k shiftKey b)"

section \<open>Properties\<close>

lemma addMessage_fields [simp]:
  "browserStatus (addMessage f m e s) = browserStatus s"
  "requests (addMessage f m e s) = requests s"
  "isLoading (addMessage f m e s) = isLoading s"
  "messages (addMessage f m e s) = messages s @ [m]"
  "fpsValue (addMessage f m e s) = fpsValue s"
  "turn (addMessage f m e s) = turn s"
  "updates (addMessage f m e s) = updates s"
  "connected (addMessage f m e s) = connected s"
  "socket (addMessage f m e s) = socket s"
  "pingInterval (addMessage f m e s) = pingInterval s"
  "timers (addMessage f m e s) = timers s"
  "sockets (addMessage f m e s) = sockets s"
  "timer_count (addMessage f m e s) = timer_count s"
  by (simp_all add: addMessage_def Let_def)



subsection \<open>Navigation\<close>

text \<open>
  C8. No part of \<open>navigateToUrl\<close> writes \<open>browserStatus\<close>: not the part before the
  call, not the part after the reply (success or failure), hence not the whole, and
  not the command \<open>goto\<close> built on it. A call with a non-empty URL (every URL the
  command sends is one) that succeeds appends the reply's message to the log and issues
  exactly the navigate request.
\<close>

theorem navigate_keeps_phase:
  "browserStatus (snd (navigateToUrl_send url s)) = browserStatus s
   \<and> browserStatus (navigateToUrl_recv r s) = browserStatus s
   \<and> browserStatus (navigateToUrl url r s) = browserStatus s
   \<and> browserStatus (snd (navigateToURL hostname_of url r s)) = browserStatus s
   \<and> (url \<noteq> [] \<longrightarrow>
        messages (navigateToUrl url (Json m) s) = messages s @ [m]
        \<and> requests (navigateToUrl url (Json m) s) = requests s @ [BrowserNavigate url])"
proof -
  have send: "browserStatus (snd (navigateToUrl_send url s)) = browserStatus s" for url s
    by (simp add: navigateToUrl_send_def)
  have recv: "browserStatus (navigateToUrl_recv r s) = browserStatus s" for r s
    by (cases r) (simp_all add: navigateToUrl_recv_def)
  have whole: "browserStatus (navigateToUrl url r s) = browserStatus s" for url r s
    using send [of url s] recv [of r "snd (navigateToUrl_send url s)"]
    by (cases "navigateToUrl_send url s") (auto simp: navigateToUrl_def split: bool.splits)
  have cmd: "browserStatus (snd (navigateToURL hostname_of url r s)) = browserStatus s"
    by (simp add: navigateToURL_def Let_def whole split: option.splits)
  have ok: "url \<noteq> [] \<Longrightarrow>
        messages (navigateToUrl url (Json m) s) = messages s @ [m]
        \<and> requests (navigateToUrl url (Json m) s) = requests s @ [BrowserNavigate url]"
    by (simp add: navigateToUrl_def navigateToUrl_send_def navigateToUrl_recv_def)
  from send recv whole cmd ok show ?thesis by blast
qed

theorem navigate_keeps_phase_witness:
  "browserStatus (navigateToUrl ''example.com'' (Json ''Navigated'') init_store) = Idle
   \<and> messages (navigateToUrl ''example.com'' (Json ''Navigated'') init_store) = [''Navigated'']
   \<and> requests (navigateToUrl ''example.com'' (Json ''Navigated'') init_store)
       = [BrowserNavigate ''example.com'']"
  using navigate_keeps_phase
    [of "''example.com''" init_store "Json ''Navigated''" "\<lambda>u. None" "''Navigated''"]
  by (simp add: init_store_def)

text \<open>
  C10. For a text whose trimmed form has no scheme prefix, the command \<open>goto\<close> works
  on \<open>https://\<close> followed by the trimmed text. Where that URL does not parse, or its
  hostname has no dot or at most three characters, the outcome is \<open>failed\<close> and no
  request is issued; otherwise the outcome is \<open>completed\<close> and exactly the navigate
  request for that URL is issued.
\<close>

theorem goto_command:
  assumes "\<not> hasProtocol (trim url)"
  shows "processUrl url = ''https://'' @ trim url
    \<and> (case hostname_of (''https://'' @ trim url) of
          None \<Rightarrow>
            map_option status (fst (navigateToURL hostname_of url r s)) = Some Failed
            \<and> requests (snd (navigateToURL hostname_of url r s)) = requests s
        | Some h \<Rightarrow>
            if CHR ''.'' \<notin> set h \<or> length h \<le> 3
            then map_option status (fst (navigateToURL hostname_of url r s)) = Some Failed
                 \<and> requests (snd (navigateToURL hostname_of url r s)) = requests s
            else map_option status (fst (navigateToURL hostname_of url r s)) = Some Completed
                 \<and> requests (snd (navigateToURL hostname_of url r s))
                     = requests s @ [BrowserNavigate (''https://'' @ trim url)])"
proof -
  from assms have p: "processUrl url = ''https://'' @ trim url"
    by (simp add: processUrl_def)
  have sent: "requests (navigateToUrl (''https://'' @ trim url) r s)
      = requests s @ [BrowserNavigate (''https://'' @ trim url)]"
    by (cases r) (simp_all add: navigateToUrl_def navigateToUrl_send_def navigateToUrl_recv_def)
  show ?thesis
    using sent
    by (auto simp: p navigateToURL_def Let_def hasValidHostname_def split: option.splits)
qed

text \<open>
  The witness reads the hostname off a URL that starts with \<open>https://\<close> by dropping
  these eight characters: \<open>example.com\<close> is navigated to, \<open>foo\<close> is refused.
\<close>

theorem goto_command_witness:
  "\<not> hasProtocol (trim ''  example.com '')
   \<and> processUrl ''  example.com '' = ''https://example.com''
   \<and> map_option status
        (fst (navigateToURL (\<lambda>u. Some (drop 8 u)) ''  example.com '' (Json ''ok'') init_store))
       = Some Completed
   \<and> requests
        (snd (navigateToURL (\<lambda>u. Some (drop 8 u)) ''  example.com '' (Json ''ok'') init_store))
       = [BrowserNavigate ''https://example.com'']
   \<and> \<not> hasProtocol (trim ''foo'')
   \<and> map_option status
        (fst (navigateToURL (\<lambda>u. Some (drop 8 u)) ''foo'' (Json ''ok'') init_store))
       = Some Failed
   \<and> requests (snd (navigateToURL (\<lambda>u. Some (drop 8 u)) ''foo'' (Json ''ok'') init_store)) = []"
proof -
  have t: "trim ''  example.com '' = ''example.com''" "trim ''foo'' = ''foo''"
    by (simp_all add: trim_def is_space_def code_def)
  have h: "\<not> hasProtocol (trim ''  example.com '')"
    unfolding t by (simp add: hasProtocol_def is_letter_def is_digit_def scheme_char_def code_def)
  have h': "\<not> hasProtocol (trim ''foo'')"
    unfolding t by (simp add: hasProtocol_def is_letter_def is_digit_def scheme_char_def code_def)
  show ?thesis
    using h h' goto_command [OF h, of "\<lambda>u. Some (drop 8 u)" "Json ''ok''" init_store]
      goto_command [OF h', of "\<lambda>u. Some (drop 8 u)" "Json ''ok''" init_store]
    by (simp add: t init_store_def)
qed

subsection \<open>The channel\<close>

lemma disconnect_closed:
  assumes "socket s = None" and "\<not> truthy (pingInterval s)" and "\<not> connected s"
  shows "disconnectWebSocket s = s"
  using assms by (simp add: disconnectWebSocket_def)

lemma disconnect_fields:
  "turn (disconnectWebSocket s) = turn s"
  "updates (disconnectWebSocket s) = updates s"
  "messages (disconnectWebSocket s) = messages s"
  "connected (disconnectWebSocket s) = False"
  "socket (disconnectWebSocket s) = None"
  "browserStatus (disconnectWebSocket s) = browserStatus s"
  by (simp_all add: disconnectWebSocket_def Let_def clearInterval_def ws_close_def
      split: option.splits)

lemma disconnect_twice: "disconnectWebSocket (disconnectWebSocket s) = disconnectWebSocket s"
proof -
  let ?d = "disconnectWebSocket s"
  have "socket ?d = None" by (rule disconnect_fields)
  moreover have "\<not> truthy (pingInterval ?d)"
    by (auto simp: disconnectWebSocket_def Let_def clearInterval_def ws_close_def truthy_def
        split: option.splits)
  moreover have "\<not> connected ?d" by (simp add: disconnect_fields)
  ultimately show ?thesis by (rule disconnect_closed)
qed

lemma disconnect_remote_closed:
  assumes "socket s = Some i" and "readyState s i = CLOSED"
    and "\<not> truthy (pingInterval s)" and "\<not> connected s"
  shows "disconnectWebSocket s = s\<lparr>socket := None\<rparr>"
  using assms by (simp add: disconnectWebSocket_def ws_close_def)

lemma disconnect_timer:
  "pingInterval s = Some t \<Longrightarrow> t \<noteq> 0 \<Longrightarrow>
     pingInterval (disconnectWebSocket s) = None \<and> t \<notin> timers (disconnectWebSocket s)"
  by (simp add: disconnectWebSocket_def Let_def clearInterval_def ws_close_def truthy_def
      split: option.splits)

lemma onopen_arms:
  "connected (onopen s) \<and> pingInterval (onopen s) = Some (Suc (timer_count s))
   \<and> Suc (timer_count s) \<in> timers (onopen s)"
  by (simp add: onopen_def Let_def)

lemma onclose_cancels:
  "\<not> connected (onclose s) \<and> \<not> truthy (pingInterval (onclose s))
   \<and> (\<forall>t. pingInterval s = Some t \<and> t \<noteq> 0 \<longrightarrow>
          t \<notin> timers (onclose s) \<and> pingInterval (onclose s) = None)"
  by (auto simp: onclose_def Let_def truthy_def clearInterval_def split: option.splits)

lemma live_store:
  "socket_open (ws_opened 0 (connectWebSocket init_store))"
  "sockets (ws_opened 0 (connectWebSocket init_store)) = [OPEN]"
  "timers (ws_opened 0 (connectWebSocket init_store)) = {1}"
  "pingInterval (ws_opened 0 (connectWebSocket init_store)) = Some 1"
  "connected (ws_opened 0 (connectWebSocket init_store))"
  by (simp_all add: ws_opened_def connectWebSocket_def init_store_def socket_open_def
      readyState_def onopen_def Let_def addMessage_def)

text \<open>
  C7. \<open>connectWebSocket\<close> on an open socket returns the state as it is: no WebSocket
  object and no timer is added. \<open>disconnectWebSocket\<close> with no socket, no timer and
  \<open>connected\<close> false returns the state as it is; where the socket was closed from the
  other side, only the module's reference to the closed object is dropped; and a second
  \<open>disconnectWebSocket\<close> changes nothing after the first. The handler \<open>onopen\<close> sets
  \<open>connected\<close> and arms a new timer, kept in \<open>pingInterval\<close>; the handler \<open>onclose\<close>
  clears \<open>connected\<close>, clears the timer of \<open>pingInterval\<close> and forgets it.
\<close>

theorem channel_idempotent:
  "(socket_open s \<longrightarrow> connectWebSocket s = s)
   \<and> (socket s = None \<and> \<not> truthy (pingInterval s) \<and> \<not> connected s
        \<longrightarrow> disconnectWebSocket s = s)
   \<and> (socket s = Some i \<and> readyState s i = CLOSED \<and> \<not> truthy (pingInterval s)
        \<and> \<not> connected s \<longrightarrow> disconnectWebSocket s = s\<lparr>socket := None\<rparr>)
   \<and> disconnectWebSocket (disconnectWebSocket s) = disconnectWebSocket s
   \<and> connected (onopen s)
   \<and> pingInterval (onopen s) = Some (Suc (timer_count s))
   \<and> Suc (timer_count s) \<in> timers (onopen s)
   \<and> \<not> connected (onclose s)
   \<and> \<not> truthy (pingInterval (onclose s))
   \<and> (pingInterval s = Some t \<and> t \<noteq> 0
        \<longrightarrow> pingInterval (onclose s) = None \<and> t \<notin> timers (onclose s))
   \<and> pingInterval (onclose (onopen s)) = None
   \<and> Suc (timer_count s) \<notin> timers (onclose (onopen s))"
proof -
  have a: "socket_open s \<longrightarrow> connectWebSocket s = s"
    by (simp add: connectWebSocket_def)
  have oc: "pingInterval (onclose (onopen s)) = None
      \<and> Suc (timer_count s) \<notin> timers (onclose (onopen s))"
    using onclose_cancels [of "onopen s"] onopen_arms [of s] by simp
  show ?thesis
    using a disconnect_closed [of s] disconnect_remote_closed [of s i] disconnect_twice [of s]
      onopen_arms [of s] onclose_cancels [of s] oc
    by blast
qed

theorem channel_idempotent_witness:
  "socket_open (ws_opened 0 (connectWebSocket init_store))
   \<and> connectWebSocket (ws_opened 0 (connectWebSocket init_store))
       = ws_opened 0 (connectWebSocket init_store)
   \<and> sockets (connectWebSocket (ws_opened 0 (connectWebSocket init_store))) = [OPEN]
   \<and> timers (connectWebSocket (ws_opened 0 (connectWebSocket init_store))) = {1}
   \<and> socket init_store = None \<and> \<not> truthy (pingInterval init_store)
   \<and> \<not> connected init_store
   \<and> disconnectWebSocket init_store = init_store"
proof -
  let ?s = "ws_opened 0 (connectWebSocket init_store)"
  have c: "socket init_store = None \<and> \<not> truthy (pingInterval init_store)
      \<and> \<not> connected init_store"
    by (simp add: init_store_def truthy_def)
  from channel_idempotent [of ?s] live_store(1) have "connectWebSocket ?s = ?s" by blast
  moreover from channel_idempotent [of init_store] c
  have "disconnectWebSocket init_store = init_store" by blast
  ultimately show ?thesis using c live_store by simp
qed

subsection \<open>The frame rate\<close>

lemma range_value_bounds: "1 \<le> range_value 1 30 v \<and> range_value 1 30 v \<le> 30"
  by (simp add: range_value_def)

lemma fps_inv_step: "fps_inv s \<Longrightarrow> fps_inv (panel_step ev s)"
proof (cases ev)
  case (FpsInput v)
  assume "fps_inv s"
  with FpsInput range_value_bounds [of v] show ?thesis
    by (simp add: fps_inv_def panel_step_def fps_control_input_def)
next
  case (FpsApply r)
  assume "fps_inv s"
  with FpsApply show ?thesis
    by (cases r)
      (simp_all add: fps_inv_def panel_step_def fps_apply_click_def setFps_def Let_def
        fps_request_ok_def)
next
  case (StartClick r)
  assume "fps_inv s"
  with StartClick show ?thesis
    by (cases r)
      (simp_all add: fps_inv_def panel_step_def startBrowser_def startBrowser_send_def
        startBrowser_recv_def fps_request_ok_def)
next
  case (StopClick r)
  assume "fps_inv s"
  with StopClick show ?thesis
    by (cases r)
      (simp_all add: fps_inv_def panel_step_def stopBrowser_def stopBrowser_send_def
        stopBrowser_recv_def fps_request_ok_def)
next
  case (UrlTyped u)
  assume "fps_inv s"
  with UrlTyped show ?thesis by (simp add: fps_inv_def panel_step_def)
next
  case (NavigateClick r)
  assume "fps_inv s"
  with NavigateClick show ?thesis
    by (cases r)
      (simp_all add: fps_inv_def panel_step_def navigateToUrl_def navigateToUrl_send_def
        navigateToUrl_recv_def fps_request_ok_def)
next
  case (PromptTyped p)
  assume "fps_inv s"
  with PromptTyped show ?thesis by (simp add: fps_inv_def panel_step_def)
next
  case (RunAgentClick r)
  assume "fps_inv s"
  with RunAgentClick show ?thesis
    by (cases r)
      (simp_all add: fps_inv_def panel_step_def runAgent_def Let_def fps_request_ok_def)
qed

lemma fps_inv_run: "fps_inv s \<Longrightarrow> fps_inv (panel_run evs s)"
  by (induction evs arbitrary: s) (simp_all add: fps_inv_step)

text \<open>
  C9. The frame rate reaches \<open>setFps\<close> only from the control, which keeps its
  value between 1 and 30: a position outside, such as 45, is clamped before it is
  written to \<open>fpsValue\<close>. From the initial store (frame rate 5), whatever the user
  does in the panel and whatever the backend replies, the frame rate in the store stays
  between 1 and 30 and so does the frame rate of every set-fps request issued, each of
  which carries the value \<open>setFps\<close> was given.
\<close>

theorem fps_control_bounds:
  "list_all fps_request_ok (requests (panel_run evs init_store))
   \<and> 1 \<le> fpsValue (panel_run evs init_store)
   \<and> fpsValue (panel_run evs init_store) \<le> 30
   \<and> requests (setFps fps r s) = requests s @ [StreamingSetFps fps]
   \<and> 1 \<le> range_value 1 30 v \<and> range_value 1 30 v \<le> 30
   \<and> fpsValue (fps_control_input v s)
       = (if browserStatus s \<noteq> Running then fpsValue s else range_value 1 30 v)
   \<and> requests (fps_apply_click r s)
       = (if browserStatus s \<noteq> Running then requests s
          else requests s @ [StreamingSetFps (fpsValue s)])"
proof -
  have "fps_inv init_store" by (simp add: fps_inv_def init_store_def)
  then have "fps_inv (panel_run evs init_store)" by (rule fps_inv_run)
  moreover have sent: "requests (setFps fps r s) = requests s @ [StreamingSetFps fps]"
    for fps s
    by (cases r) (simp_all add: setFps_def Let_def)
  ultimately show ?thesis
    using range_value_bounds [of v]
    by (simp add: fps_inv_def fps_control_input_def fps_apply_click_def sent)
qed

text \<open>Asking the control for 45 with the browser running, then Apply: the request carries 30.\<close>

theorem fps_control_bounds_witness:
  "requests (panel_run [StartClick (Json ''started''), FpsInput 45, FpsApply (Json ''ok'')]
        init_store) = [BrowserStart, StreamingSetFps 30]
   \<and> list_all fps_request_ok
        (requests (panel_run [StartClick (Json ''started''), FpsInput 45, FpsApply (Json ''ok'')]
           init_store))"
proof -
  have "requests (panel_run [StartClick (Json ''started''), FpsInput 45, FpsApply (Json ''ok'')]
        init_store) = [BrowserStart, StreamingSetFps 30]"
    by (simp add: panel_step_def startBrowser_def startBrowser_send_def startBrowser_recv_def
        fps_control_input_def fps_apply_click_def setFps_def Let_def init_store_def
        range_value_def)
  then show ?thesis
    using fps_control_bounds
      [of "[StartClick (Json ''started''), FpsInput 45, FpsApply (Json ''ok'')]"]
    by simp
qed

subsection \<open>Push updates\<close>

lemma completed_resolves:
  assumes "listening a" and "unsub_bound a" and "\<not> queue_stuck s" and "us \<noteq> []"
    and "upd_status (last us) = UCompleted" and "upd_data (last us) = Some m"
  shows "updates_set us (a, s)
      = (None, a\<lparr>response := m, listening := False\<rparr>, s\<lparr>updates := [], turn := Idle\<rparr>)"
  using assms by (simp add: updates_set_def on_updates_def Let_def)

lemma completed_unreadable:
  assumes "listening a" and "\<not> queue_stuck s" and "us \<noteq> []"
    and "upd_status (last us) = UCompleted" and "upd_data (last us) = None"
  shows "updates_set us (a, s) = (Some TypeError, a, s\<lparr>updates := us, queue_stuck := True\<rparr>)"
  using assms by (simp add: updates_set_def on_updates_def Let_def)

lemma other_ignored:
  assumes "us \<noteq> []" and "upd_status (last us) \<noteq> UCompleted"
  shows "updates_set us (a, s) = (None, a, s\<lparr>updates := us\<rparr>)"
  using assms by (simp add: updates_set_def on_updates_def Let_def)

lemma stuck_ignored:
  assumes "queue_stuck s"
  shows "updates_set us (a, s) = (None, a, s\<lparr>updates := us\<rparr>)"
  using assms by (simp add: updates_set_def)

lemma id_not_read:
  "fst (updates_set (vs @ [u\<lparr>interaction_id := i\<rparr>]) (a, s)) = fst (updates_set (vs @ [u]) (a, s))
   \<and> fst (snd (updates_set (vs @ [u\<lparr>interaction_id := i\<rparr>]) (a, s)))
       = fst (snd (updates_set (vs @ [u]) (a, s)))"
  by (simp add: updates_set_def on_updates_def Let_def split: option.splits)

text \<open>
  C2, as stated, fails: the component never reads \<open>interaction_id\<close>. An Invocation
  started with the identifier \<open>x1\<close> is completed by an update that carries \<open>x2\<close>.
\<close>

theorem stale_update_accepted:
  "onMount_resume (Some \<lparr>status = Started, message = ''x1''\<rparr>) (init_agent, init_store)
     = (None, \<lparr>response = [], listening = True, unsub_bound = True\<rparr>, init_store)
   \<and> fst (snd (updates_set
        [\<lparr>upd_status = UCompleted, interaction_id = ''x2'', upd_data = Some ''Done''\<rparr>]
        (\<lparr>response = [], listening = True, unsub_bound = True\<rparr>, init_store)))
     = \<lparr>response = ''Done'', listening = False, unsub_bound = True\<rparr>"
  by (simp add: onMount_resume_def subscribe_def on_updates_def updates_set_def init_agent_def
      init_store_def Let_def)

text \<open>
  C2, amended. Take a component that is listening (its subscription set up, so that
  \<open>unsubscribe\<close> is initialised) and a non-empty list written to \<open>updates\<close>; the
  \<open>interaction_id\<close> of its last update plays no part. While the stores deliver (no
  subscriber has thrown during an earlier \<open>set\<close>): an update whose status is not
  \<open>completed\<close> (a failed one or a step) leaves the component as it is; a \<open>completed\<close>
  one with a readable message makes that message the response, ends the subscription,
  empties \<open>updates\<close> and sets \<open>turn\<close> to idle; a \<open>completed\<close> one whose \<open>data\<close> is
  missing throws, leaves the component as it is and stops all later delivery. Once
  delivery has stopped, every update is stored and none reaches the component.
  Replacing the identifier of the last update by any other changes neither the error
  nor the component that results.
\<close>

theorem update_handling:
  assumes "listening a" and "unsub_bound a" and "us \<noteq> []"
  shows "(\<not> queue_stuck s \<and> upd_status (last us) \<noteq> UCompleted \<longrightarrow>
            updates_set us (a, s) = (None, a, s\<lparr>updates := us\<rparr>))
    \<and> (\<not> queue_stuck s \<and> upd_status (last us) = UCompleted \<and> upd_data (last us) = Some m
          \<longrightarrow> updates_set us (a, s)
              = (None, a\<lparr>response := m, listening := False\<rparr>,
                 s\<lparr>updates := [], turn := Idle\<rparr>))
    \<and> (\<not> queue_stuck s \<and> upd_status (last us) = UCompleted \<and> upd_data (last us) = None
          \<longrightarrow> updates_set us (a, s)
              = (Some TypeError, a, s\<lparr>updates := us, queue_stuck := True\<rparr>))
    \<and> (queue_stuck s \<longrightarrow> updates_set us (a, s) = (None, a, s\<lparr>updates := us\<rparr>))
    \<and> fst (updates_set (vs @ [u\<lparr>interaction_id := i\<rparr>]) (a, s))
        = fst (updates_set (vs @ [u]) (a, s))
    \<and> fst (snd (updates_set (vs @ [u\<lparr>interaction_id := i\<rparr>]) (a, s)))
        = fst (snd (updates_set (vs @ [u]) (a, s)))"
  using assms completed_resolves [of a s us m] completed_unreadable [of a s us]
    other_ignored [of us a s] stuck_ignored [of s us a]
    id_not_read [where vs = vs and u = u and i = i and a = a and s = s]
  by blast

text \<open>
  A failed update for another identifier is ignored, a completed one for the
  Invocation's own identifier resolves it, and after a completed update without
  \<open>data\<close> the next completed update no longer reaches the component.
\<close>

theorem update_handling_witness:
  "updates_set [\<lparr>upd_status = UFailed, interaction_id = ''x2'', upd_data = Some ''Oops''\<rparr>]
       (\<lparr>response = [], listening = True, unsub_bound = True\<rparr>, init_store)
     = (None, \<lparr>response = [], listening = True, unsub_bound = True\<rparr>,
        init_store\<lparr>updates :=
          [\<lparr>upd_status = UFailed, interaction_id = ''x2'', upd_data = Some ''Oops''\<rparr>]\<rparr>)
   \<and> updates_set [\<lparr>upd_status = UCompleted, interaction_id = ''x1'', upd_data = Some ''Done''\<rparr>]
       (\<lparr>response = [], listening = True, unsub_bound = True\<rparr>, init_store)
     = (None, \<lparr>response = ''Done'', listening = False, unsub_bound = True\<rparr>,
        init_store\<lparr>updates := [], turn := Idle\<rparr>)
   \<and> updates_set [\<lparr>upd_status = UCompleted, interaction_id = ''x1'', upd_data = None\<rparr>]
       (\<lparr>response = [], listening = True, unsub_bound = True\<rparr>, init_store)
     = (Some TypeError, \<lparr>response = [], listening = True, unsub_bound = True\<rparr>,
        init_store\<lparr>updates :=
          [\<lparr>upd_status = UCompleted, interaction_id = ''x1'', upd_data = None\<rparr>],
          queue_stuck := True\<rparr>)
   \<and> fst (snd (updates_set
        [\<lparr>upd_status = UCompleted, interaction_id = ''x1'', upd_data = Some ''Done''\<rparr>]
        (\<lparr>response = [], listening = True, unsub_bound = True\<rparr>,
         init_store\<lparr>queue_stuck := True\<rparr>)))
     = \<lparr>response = [], listening = True, unsub_bound = True\<rparr>"
proof -
  have q: "\<not> queue_stuck init_store" "queue_stuck (init_store\<lparr>queue_stuck := True\<rparr>)"
    by (simp_all add: init_store_def)
  show ?thesis
    using q
      update_handling [of "\<lparr>response = [], listening = True, unsub_bound = True\<rparr>"
        "[\<lparr>upd_status = UFailed, interaction_id = ''x2'', upd_data = Some ''Oops''\<rparr>]"
        init_store "''Oops''"]
      update_handling [of "\<lparr>response = [], listening = True, unsub_bound = True\<rparr>"
        "[\<lparr>upd_status = UCompleted, interaction_id = ''x1'', upd_data = Some ''Done''\<rparr>]"
        init_store "''Done''"]
      update_handling [of "\<lparr>response = [], listening = True, unsub_bound = True\<rparr>"
        "[\<lparr>upd_status = UCompleted, interaction_id = ''x1'', upd_data = None\<rparr>]"
        init_store "''Done''"]
      update_handling [of "\<lparr>response = [], listening = True, unsub_bound = True\<rparr>"
        "[\<lparr>upd_status = UCompleted, interaction_id = ''x1'', upd_data = Some ''Done''\<rparr>]"
        "init_store\<lparr>queue_stuck := True\<rparr>" "''Done''"]
    by simp
qed

subsection \<open>Disconnecting with an Invocation outstanding\<close>

lemma disconnect_sockets:
  "sockets (disconnectWebSocket s)
     = (case socket s of
          None \<Rightarrow> sockets s
        | Some i \<Rightarrow>
            if readyState s i = CLOSING \<or> readyState s i = CLOSED then sockets s
            else (sockets s)[i := CLOSING])"
  by (simp add: disconnectWebSocket_def Let_def clearInterval_def ws_close_def
      split: option.splits)

lemma disconnect_closing:
  assumes "socket s = Some i" and "readyState s i = OPEN \<or> readyState s i = CONNECTING"
  shows "readyState (disconnectWebSocket s) i = CLOSING"
proof -
  from assms(2) have "i < length (sockets s)"
    by (auto simp: readyState_def split: if_splits)
  with assms show ?thesis
    by (auto simp: readyState_def disconnect_sockets)
qed

lemma disconnect_timers:
  "timers (disconnectWebSocket s)
     = (case pingInterval s of
          None \<Rightarrow> timers s
        | Some t \<Rightarrow> if t = 0 then timers s else timers s - {t})"
  by (simp add: disconnectWebSocket_def Let_def clearInterval_def ws_close_def truthy_def
      split: option.splits)

lemma disconnect_queue: "queue_stuck (disconnectWebSocket s) = queue_stuck s"
  by (simp add: disconnectWebSocket_def Let_def clearInterval_def ws_close_def
      split: option.splits)

lemma onclose_fields:
  "turn (onclose s) = turn s" "updates (onclose s) = updates s"
  by (simp_all add: onclose_def Let_def clearInterval_def split: option.splits)

text \<open>
  C4, as stated, fails: \<open>disconnectWebSocket\<close> knows of no Invocation. With the channel
  open and an Invocation started with \<open>x1\<close>, the disconnect closes the socket, and the
  component is still listening afterwards, \<open>updates\<close> and \<open>turn\<close> are as before, and
  a later update for \<open>x1\<close> is not discarded: it completes the Invocation.
\<close>

theorem disconnect_keeps_invocation:
  "onMount_resume (Some \<lparr>status = Started, message = ''x1''\<rparr>)
       (init_agent, ws_opened 0 (connectWebSocket init_store))
     = (None, \<lparr>response = [], listening = True, unsub_bound = True\<rparr>,
        ws_opened 0 (connectWebSocket init_store))
   \<and> connected (ws_opened 0 (connectWebSocket init_store))
   \<and> \<not> connected (disconnectWebSocket (ws_opened 0 (connectWebSocket init_store)))
   \<and> sockets (disconnectWebSocket (ws_opened 0 (connectWebSocket init_store))) = [CLOSING]
   \<and> updates (disconnectWebSocket (ws_opened 0 (connectWebSocket init_store))) = []
   \<and> turn (disconnectWebSocket (ws_opened 0 (connectWebSocket init_store))) = Idle
   \<and> fst (snd (updates_set
        [\<lparr>upd_status = UCompleted, interaction_id = ''x1'', upd_data = Some ''Done''\<rparr>]
        (\<lparr>response = [], listening = True, unsub_bound = True\<rparr>,
         disconnectWebSocket (ws_opened 0 (connectWebSocket init_store)))))
     = \<lparr>response = ''Done'', listening = False, unsub_bound = True\<rparr>"
  by (simp add: onMount_resume_def subscribe_def on_updates_def updates_set_def init_agent_def
      init_store_def Let_def ws_opened_def connectWebSocket_def socket_open_def onopen_def
      addMessage_def disconnectWebSocket_def ws_close_def readyState_def truthy_def
      clearInterval_def)

text \<open>
  C4, amended. \<open>disconnectWebSocket\<close> clears \<open>connected\<close>, closes the socket (its
  \<open>readyState\<close> becomes \<open>CLOSING\<close> unless it was closing or closed) and drops the
  reference to it, cancels the keepalive timer and forgets it, and leaves \<open>turn\<close>,
  \<open>updates\<close> and the log untouched, as the handler \<open>onclose\<close> leaves \<open>turn\<close> and
  \<open>updates\<close>; no Invocation fails. A component that was listening is listening
  afterwards, and while the stores deliver, a \<open>completed\<close> update that arrives later
  still resolves it.
\<close>

theorem disconnect_effects:
  "connected (disconnectWebSocket s) = False
   \<and> socket (disconnectWebSocket s) = None
   \<and> sockets (disconnectWebSocket s)
       = (case socket s of
            None \<Rightarrow> sockets s
          | Some j \<Rightarrow>
              if readyState s j = CLOSING \<or> readyState s j = CLOSED then sockets s
              else (sockets s)[j := CLOSING])
   \<and> (socket s = Some i \<and> (readyState s i = OPEN \<or> readyState s i = CONNECTING) \<longrightarrow>
        readyState (disconnectWebSocket s) i = CLOSING)
   \<and> timers (disconnectWebSocket s)
       = (case pingInterval s of
            None \<Rightarrow> timers s
          | Some k \<Rightarrow> if k = 0 then timers s else timers s - {k})
   \<and> (pingInterval s = Some t \<and> t \<noteq> 0 \<longrightarrow>
        pingInterval (disconnectWebSocket s) = None \<and> t \<notin> timers (disconnectWebSocket s))
   \<and> turn (disconnectWebSocket s) = turn s
   \<and> updates (disconnectWebSocket s) = updates s
   \<and> messages (disconnectWebSocket s) = messages s
   \<and> queue_stuck (disconnectWebSocket s) = queue_stuck s
   \<and> turn (onclose s) = turn s
   \<and> updates (onclose s) = updates s
   \<and> (listening a \<and> unsub_bound a \<and> \<not> queue_stuck s \<and> upd_status u = UCompleted
        \<and> upd_data u = Some m \<longrightarrow>
        updates_set [u] (a, disconnectWebSocket s)
          = (None, a\<lparr>response := m, listening := False\<rparr>,
             (disconnectWebSocket s)\<lparr>updates := [], turn := Idle\<rparr>))"
proof -
  have later: "updates_set [u] (a, disconnectWebSocket s)
          = (None, a\<lparr>response := m, listening := False\<rparr>,
             (disconnectWebSocket s)\<lparr>updates := [], turn := Idle\<rparr>)"
    if "listening a" "unsub_bound a" "\<not> queue_stuck s" "upd_status u = UCompleted"
      "upd_data u = Some m"
    using that completed_resolves [of a "disconnectWebSocket s" "[u]" m]
    by (simp add: disconnect_queue)
  show ?thesis
    using disconnect_fields [of s] disconnect_timer [of s t] disconnect_sockets [of s]
      disconnect_closing [of s i] disconnect_timers [of s] disconnect_queue [of s]
      onclose_fields [of s] later
    by simp
qed

theorem disconnect_effects_witness:
  "pingInterval (ws_opened 0 (connectWebSocket init_store)) = Some 1
   \<and> socket (ws_opened 0 (connectWebSocket init_store)) = Some 0
   \<and> readyState (ws_opened 0 (connectWebSocket init_store)) 0 = OPEN
   \<and> readyState (disconnectWebSocket (ws_opened 0 (connectWebSocket init_store))) 0 = CLOSING
   \<and> pingInterval (disconnectWebSocket (ws_opened 0 (connectWebSocket init_store))) = None
   \<and> 1 \<notin> timers (disconnectWebSocket (ws_opened 0 (connectWebSocket init_store)))
   \<and> fst (snd (updates_set
        [\<lparr>upd_status = UCompleted, interaction_id = ''x1'', upd_data = Some ''Done''\<rparr>]
        (\<lparr>response = [], listening = True, unsub_bound = True\<rparr>,
         disconnectWebSocket (ws_opened 0 (connectWebSocket init_store)))))
     = \<lparr>response = ''Done'', listening = False, unsub_bound = True\<rparr>"
proof -
  let ?s = "ws_opened 0 (connectWebSocket init_store)"
  have live: "socket ?s = Some 0" "readyState ?s 0 = OPEN" "\<not> queue_stuck ?s"
    by (simp_all add: ws_opened_def connectWebSocket_def init_store_def socket_open_def
        readyState_def onopen_def Let_def addMessage_def)
  show ?thesis
    using disconnect_effects
      [of ?s 0 1 "\<lparr>response = [], listening = True, unsub_bound = True\<rparr>"
        "\<lparr>upd_status = UCompleted, interaction_id = ''x1'', upd_data = Some ''Done''\<rparr>"
        "''Done''"]
      live_store(4) live
    by simp
qed

subsection \<open>Starting the agent\<close>

text \<open>
  C5. The \<open>runAgent\<close> of the store has no \<open>return\<close>: whatever the prompt and whatever
  the backend replies, it resolves to \<open>undefined\<close>, so the command, which starts the
  Invocation only on a truthy identifier, resolves to \<open>undefined\<close> too, and the
  component throws on destructuring it and is left as it was, never listening. For the
  prompt \<open>summarize this page\<close> the agent run is requested and no Invocation starts.
\<close>

theorem prompt_never_started:
  "fst (runAgent p r s) = None
   \<and> fst (runAgent_command p r s) = None
   \<and> fst (onMount hostname_of prompt p r (a, s)) = Some TypeError
   \<and> fst (snd (onMount hostname_of prompt p r (a, s))) = a
   \<and> requests (snd (snd (onMount hostname_of prompt ''summarize this page'' (Json ''x1'')
        (init_agent, init_store)))) = [AgentRun ''summarize this page'']
   \<and> \<not> listening (fst (snd (onMount hostname_of prompt ''summarize this page'' (Json ''x1'')
        (init_agent, init_store))))"
proof -
  have store: "fst (runAgent p r s) = None" for p r s
    by (simp add: runAgent_def Let_def)
  have cmd: "fst (runAgent_command p r s) = None" for p r s
    using store [of p r s]
    by (cases "runAgent p r s") (simp add: runAgent_command_def runAgent_command_of_def)
  have mount: "fst (onMount hostname_of prompt p r (a, s)) = Some TypeError
      \<and> fst (snd (onMount hostname_of prompt p r (a, s))) = a" for p r a s
    using cmd [of p r s]
    by (cases "runAgent_command p r s") (simp add: onMount_def onSend_def onMount_resume_def)
  have sent: "requests (snd (snd (onMount hostname_of prompt ''summarize this page''
        (Json ''x1'') (init_agent, init_store)))) = [AgentRun ''summarize this page'']"
    by (simp add: onMount_def onSend_def onMount_resume_def runAgent_command_def
        runAgent_command_of_def runAgent_def Let_def init_store_def addMessage_def)
  from store cmd mount sent show ?thesis
    by (simp add: init_agent_def)
qed

subsection \<open>Submitting from the command input\<close>

text \<open>
  C1, as stated, fails: neither \<open>submitAction\<close> nor \<open>onMount\<close> nor the button Run
  Agent of the panel looks for an outstanding Invocation. With an Invocation started,
  \<open>submitAction\<close> (also through \<open>handleKeydown\<close>) dispatches the next action, even
  with the input disabled; a second component that mounts with a \<open>started\<close> outcome
  listens beside the first; and two clicks on Run Agent issue two agent runs.
\<close>

theorem submit_while_started:
  "listening (fst (snd (onMount_resume (Some \<lparr>status = Started, message = ''x1''\<rparr>)
       (init_agent, init_store))))
   \<and> dispatched (submitAction
        (init_input\<lparr>inputText := ''again'', selectedAction := Some prompt, disabled := True\<rparr>))
       = [(prompt, ''again'')]
   \<and> dispatched (handleKeydown Enter False
        (init_input\<lparr>inputText := ''again'', selectedAction := Some prompt, disabled := True\<rparr>))
       = [(prompt, ''again'')]
   \<and> listening (fst (snd (onMount_resume (Some \<lparr>status = Started, message = ''x2''\<rparr>)
       (init_agent, snd (snd (onMount_resume (Some \<lparr>status = Started, message = ''x1''\<rparr>)
       (init_agent, init_store)))))))
   \<and> requests (panel_run
        [StartClick (Json ''started''), PromptTyped ''go'', RunAgentClick (Json ''x1''),
         RunAgentClick (Json ''x2'')] init_store)
       = [BrowserStart, AgentRun ''go'', AgentRun ''go'']"
proof -
  have "requests (panel_run
        [StartClick (Json ''started''), PromptTyped ''go'', RunAgentClick (Json ''x1''),
         RunAgentClick (Json ''x2'')] init_store)
       = [BrowserStart, AgentRun ''go'', AgentRun ''go'']"
    by (simp add: panel_step_def startBrowser_def startBrowser_send_def startBrowser_recv_def
        runAgent_def Let_def init_store_def addMessage_def)
  then show ?thesis
    by (simp add: onMount_resume_def subscribe_def on_updates_def init_agent_def init_store_def
        Let_def submitAction_def handleKeydown_def init_input_def)
qed

text \<open>
  C1, amended. While the property \<open>disabled\<close> of the command input is set, the button
  Send and the text area do nothing: no action is dispatched and the state is
  unchanged. \<open>submitAction\<close> itself rejects exactly when the text is empty or no
  action is selected, and otherwise dispatches the selected action with the text. The
  button Run Agent of the panel issues the agent run whenever the browser is running
  and the prompt is not empty.
\<close>

theorem disabled_input_rejects:
  "(disabled b \<longrightarrow> send_click b = b \<and> textarea_keydown k shiftKey b = b)
   \<and> ((submitAction b = b) = (inputText b = [] \<or> selectedAction b = None))
   \<and> (inputText b \<noteq> [] \<and> selectedAction b = Some c \<longrightarrow>
        dispatched (submitAction b) = dispatched b @ [(c, inputText b)])
   \<and> (browserStatus s = Running \<and> promptInput s \<noteq> [] \<longrightarrow>
        requests (panel_step (RunAgentClick r) s) = requests s @ [AgentRun (promptInput s)])"
proof -
  have "submitAction b = b" if "inputText b = [] \<or> selectedAction b = None"
    using that by (auto simp: submitAction_def split: option.splits)
  moreover have "inputText (submitAction b) \<noteq> inputText b"
    if "inputText b \<noteq> []" "selectedAction b \<noteq> None"
    using that by (auto simp: submitAction_def split: option.splits)
  ultimately have "(submitAction b = b) = (inputText b = [] \<or> selectedAction b = None)"
    by metis
  moreover have "requests (panel_step (RunAgentClick r) s) = requests s @ [AgentRun (promptInput s)]"
    if "browserStatus s = Running" "promptInput s \<noteq> []"
    using that by (cases r) (simp_all add: panel_step_def runAgent_def Let_def)
  ultimately show ?thesis
    by (auto simp: send_click_def textarea_keydown_def submitAction_def)
qed

theorem disabled_input_rejects_witness:
  "disabled (init_input\<lparr>inputText := ''again'', selectedAction := Some prompt, disabled := True\<rparr>)
   \<and> dispatched (send_click
        (init_input\<lparr>inputText := ''again'', selectedAction := Some prompt, disabled := True\<rparr>))
       = []
   \<and> dispatched (textarea_keydown Enter False
        (init_input\<lparr>inputText := ''again'', selectedAction := Some prompt, disabled := True\<rparr>))
       = []"
  using disabled_input_rejects
    [of "init_input\<lparr>inputText := ''again'', selectedAction := Some prompt, disabled := True\<rparr>"
      Enter False prompt init_store "Json ''x1''"]
  by (simp add: init_input_def)

text \<open>
  C3. The action \<open>goto\<close> is selected and the text is \<open>example.com\<close>, for which the
  action's \<open>enableSend\<close> is false. The button Send and the key Enter both dispatch the
  action with that text and reset the input: \<open>enableSend\<close> is never called. Further
  on, the component that runs the command does not validate either, and the navigate
  request is issued.
\<close>

theorem goto_submitted_unvalidated:
  "\<not> enableSend goto ((selectAction goto init_input)\<lparr>inputText := ''example.com''\<rparr>)
   \<and> send_click ((selectAction goto init_input)\<lparr>inputText := ''example.com''\<rparr>)
      = init_input\<lparr>dispatched := [(goto, ''example.com'')]\<rparr>
   \<and> textarea_keydown Enter False
        ((selectAction goto init_input)\<lparr>inputText := ''example.com''\<rparr>)
      = init_input\<lparr>dispatched := [(goto, ''example.com'')]\<rparr>
   \<and> requests (snd (snd (onMount (\<lambda>u. Some (drop 8 u)) goto ''example.com'' (Json ''ok'')
        (init_agent, init_store)))) = [BrowserNavigate ''https://example.com'']"
proof -
  have "trim ''example.com'' = ''example.com''"
    by (simp add: trim_def is_space_def code_def)
  moreover have "\<not> hasProtocol ''example.com''"
    by (simp add: hasProtocol_def is_letter_def is_digit_def scheme_char_def code_def)
  ultimately have "requests (snd (snd (onMount (\<lambda>u. Some (drop 8 u)) goto ''example.com''
      (Json ''ok'') (init_agent, init_store)))) = [BrowserNavigate ''https://example.com'']"
    by (simp add: onMount_def onSend_def navigateToURL_def processUrl_def Let_def
        hasValidHostname_def navigateToUrl_def navigateToUrl_send_def navigateToUrl_recv_def
        onMount_resume_def init_store_def init_agent_def addMessage_def)
  then show ?thesis
    by (simp add: enableSend_def startsWith_def selectAction_def init_input_def send_click_def
        submitAction_def textarea_keydown_def handleKeydown_def)
qed

end
